theory Spec2Isabelle
  imports Main "HOL-Library.Word"
begin

section \<open>Data model (types.ts)\<close>

text \<open>
  A JavaScript string is a sequence of UTF-16 code units. \<open>js\<close> writes an ASCII
  literal of the source as such a sequence.
\<close>

type_synonym js_string = "16 word list"

definition js :: "string \<Rightarrow> js_string" where
  "js s = map (\<lambda>c. of_nat (of_char c)) s"

text \<open>The literal type \<^verbatim>\<open>'11' | '12'\<close>.\<close>

datatype grade = G11 | G12

text \<open>
  \<^verbatim>\<open>interface MCQ { question; options; correctAnswer; explanation }\<close>.
  \<open>correctAnswer\<close> is a \<^verbatim>\<open>number\<close> that the response schema declares an
  integer; quiz indices and scores stay far below \<open>2^53\<close>, so they are integers here.
\<close>

record MCQ =
  question :: js_string
  options :: "js_string list"
  correctAnswer :: int
  explanation :: js_string

text \<open>
  \<^verbatim>\<open>interface QuizResult\<close>. The handler builds its \<open>grade\<close> with the cast
  \<^verbatim>\<open>state.grade as '11' | '12'\<close>, which does nothing at run time, so the field can hold
  \<^verbatim>\<open>null\<close>.
\<close>

record QuizResult =
  topic :: js_string
  grade :: "grade option"
  score :: int
  totalQuestions :: int
  date :: js_string

record QuizState =
  topic :: js_string
  grade :: "grade option"
  questions :: "MCQ list"
  currentQuestionIndex :: int
  score :: int
  isFinished :: bool
  isLoading :: bool
  selectedAnswer :: "int option"
  isAuthenticated :: bool
  history :: "QuizResult list"

definition INITIAL_STATE :: QuizState where
  "INITIAL_STATE =
     \<lparr>topic = [], grade = None, questions = [], currentQuestionIndex = 0, score = 0,
      isFinished = False, isLoading = False, selectedAnswer = None,
      isAuthenticated = False, history = []\<rparr>"

datatype View = Home | Dashboard | Subjects | Analytics | Signin | Privacy | Terms | Contact

section \<open>The App component (App.tsx)\<close>

text \<open>
  The component holds three pieces of React state: \<open>state\<close>, \<open>searchQuery\<close> and
  \<open>currentView\<close>. Two further fields record its effects on the outside world:
  \<open>inflight\<close> lists the \<^verbatim>\<open>generateContent\<close> requests that have been issued and have
  not settled yet (topic and grade of the prompt, oldest first), and \<open>alerts\<close> lists the
  messages shown with \<^verbatim>\<open>alert\<close> (newest first).

  Events are handled one at a time. A handler attached by the latest render sees, in its
  closure variable \<^verbatim>\<open>state\<close>, the same value its \<^verbatim>\<open>setState\<close> updater receives as
  \<^verbatim>\<open>prev\<close>. The one control that outlives its render is the Next button: it sits in an
  \<^verbatim>\<open>AnimatePresence\<close>, which keeps the block on the page while it exits, with the
  handler of the render that is gone (\<open>nextQuestionFrom\<close> below).
\<close>

record app =
  state :: QuizState
  searchQuery :: js_string
  currentView :: View
  inflight :: "(js_string \<times> grade) list"
  alerts :: "js_string list"

definition initial_app :: app where
  "initial_app =
     \<lparr>state = INITIAL_STATE, searchQuery = [], currentView = Home, inflight = [], alerts = []\<rparr>"

subsection \<open>String.prototype.trim\<close>

text \<open>
  The code units that ECMAScript's \<^verbatim>\<open>trim\<close> strips: WhiteSpace (TAB, VT, FF, ZWNBSP and
  the space separators) and LineTerminator (LF, CR, LS, PS). All of them are in the Basic
  Multilingual Plane, so each is one code unit.
\<close>

definition isWhiteSpace :: "16 word \<Rightarrow> bool" where
  "isWhiteSpace c =
     (c \<in> set [0x9, 0xA, 0xB, 0xC, 0xD, 0x20, 0xA0, 0x1680, 0x2028, 0x2029, 0x202F, 0x205F,
               0x3000, 0xFEFF]
      \<or> (0x2000 \<le> c \<and> c \<le> 0x200A))"

definition trim :: "js_string \<Rightarrow> js_string" where
  "trim s = rev (dropWhile isWhiteSpace (rev (dropWhile isWhiteSpace s)))"

subsection \<open>generateMCQs\<close>

text \<open>
  The part of \<^verbatim>\<open>generateMCQs\<close> that runs before the \<^verbatim>\<open>await\<close>: the guard on the
  trimmed query (the empty string is falsy), the grade
  \<^verbatim>\<open>selectedGrade || state.grade || '11'\<close>, the first \<^verbatim>\<open>setState\<close> and the request.
  There is no test of \<open>isLoading\<close>.
\<close>

definition generateMCQs :: "grade option \<Rightarrow> app \<Rightarrow> app" where
  "generateMCQs selectedGrade a =
     (if trim (searchQuery a) = [] then a
      else
        let g = (case selectedGrade of
                   Some g \<Rightarrow> g
                 | None \<Rightarrow> (case grade (state a) of Some g \<Rightarrow> g | None \<Rightarrow> G11))
        in a\<lparr>state := (state a)\<lparr>isLoading := True, topic := searchQuery a, grade := Some g\<rparr>,
              inflight := inflight a @ [(searchQuery a, g)]\<rparr>)"

text \<open>
  How a request settles. \<^verbatim>\<open>generateContent\<close> (or the client's constructor) throws, or
  it resolves with a response whose \<^verbatim>\<open>text\<close> is missing or empty (then
  \<^verbatim>\<open>response.text || '[]'\<close> parses to the empty array), or whose text
  \<^verbatim>\<open>JSON.parse\<close> rejects, or whose text parses. The parsed value is taken to have
  the shape the response schema asks for, an array of MCQ objects.
\<close>

datatype outcome = GenerateContentThrows | TextMissing | TextUnparseable | TextParses "MCQ list"

definition failureMessage :: js_string where
  "failureMessage = js ''Failed to generate questions. Please try again.''"

text \<open>The \<^verbatim>\<open>setState\<close> after a successful parse, and the \<^verbatim>\<open>catch\<close> block.\<close>

definition generationSucceeded :: "MCQ list \<Rightarrow> app \<Rightarrow> app" where
  "generationSucceeded qs a =
     a\<lparr>state := (state a)\<lparr>questions := qs, isLoading := False, currentQuestionIndex := 0,
                            score := 0, isFinished := False, selectedAnswer := None\<rparr>\<rparr>"

definition generationFailed :: "app \<Rightarrow> app" where
  "generationFailed a =
     a\<lparr>state := (state a)\<lparr>isLoading := False\<rparr>, alerts := failureMessage # alerts a\<rparr>"

fun generateMCQs_resume :: "outcome \<Rightarrow> app \<Rightarrow> app" where
  "generateMCQs_resume GenerateContentThrows a = generationFailed a"
| "generateMCQs_resume TextMissing a = generationSucceeded [] a"
| "generateMCQs_resume TextUnparseable a = generationFailed a"
| "generateMCQs_resume (TextParses qs) a = generationSucceeded qs a"

text \<open>The \<open>i\<close>-th request in flight settles: it leaves the list and the continuation runs.\<close>

definition settle :: "nat \<Rightarrow> outcome \<Rightarrow> app \<Rightarrow> app" where
  "settle i oc a =
     generateMCQs_resume oc (a\<lparr>inflight := take i (inflight a) @ drop (Suc i) (inflight a)\<rparr>)"

subsection \<open>handleAnswerSelect, nextQuestion, handleSignIn, resetQuiz\<close>

definition handleAnswerSelect :: "int \<Rightarrow> QuizState \<Rightarrow> QuizState" where
  "handleAnswerSelect index s =
     (if selectedAnswer s \<noteq> None then s else s\<lparr>selectedAnswer := Some index\<rparr>)"

text \<open>
  \<^verbatim>\<open>xs[i]\<close> on a JavaScript array is \<^verbatim>\<open>undefined\<close> outside \<open>0 \<le> i < xs.length\<close>;
  reading a property of \<^verbatim>\<open>undefined\<close> throws a TypeError.
\<close>

datatype error = TypeError

definition js_index :: "'a list \<Rightarrow> int \<Rightarrow> 'a option" where
  "js_index xs i = (if 0 \<le> i \<and> i < int (length xs) then Some (xs ! nat i) else None)"

definition currentMCQ :: "QuizState \<Rightarrow> MCQ option" where
  "currentMCQ s = js_index (questions s) (currentQuestionIndex s)"

text \<open>The result record of \<^verbatim>\<open>nextQuestion\<close>; \<open>now\<close> is \<^verbatim>\<open>new Date().toLocaleString()\<close>.\<close>

definition newResult :: "js_string \<Rightarrow> int \<Rightarrow> QuizState \<Rightarrow> QuizResult" where
  "newResult now newScore s =
     \<lparr>QuizResult.topic = topic s, QuizResult.grade = grade s, QuizResult.score = newScore,
      totalQuestions = int (length (questions s)), date = now\<rparr>"

text \<open>
  \<^verbatim>\<open>nextQuestion\<close>. Its first statement reads \<^verbatim>\<open>.correctAnswer\<close> of the current
  question, with no guard of its own. \<^verbatim>\<open>null === n\<close> is false for every number.
\<close>

definition nextQuestion :: "js_string \<Rightarrow> QuizState \<Rightarrow> error + QuizState" where
  "nextQuestion now s =
     (case currentMCQ s of
        None \<Rightarrow> Inl TypeError
      | Some q \<Rightarrow>
          let isCorrect = (selectedAnswer s = Some (correctAnswer q));
              newScore = (if isCorrect then score s + 1 else score s)
          in if currentQuestionIndex s = int (length (questions s)) - 1
             then Inr (s\<lparr>score := newScore, isFinished := True, selectedAnswer := None,
                         history := newResult now newScore s # history s\<rparr>)
             else Inr (s\<lparr>score := newScore,
                         currentQuestionIndex := currentQuestionIndex s + 1,
                         selectedAnswer := None\<rparr>))"

text \<open>
  The same handler when the render it closes over is not the latest one: the score, the
  test for the last index and the result record are computed from the closure's
  \<^verbatim>\<open>state\<close>, and the updater copies \<^verbatim>\<open>prev\<close>, the current state, adding 1 to its index.
\<close>

definition nextQuestionFrom :: "js_string \<Rightarrow> QuizState \<Rightarrow> QuizState \<Rightarrow> error + QuizState" where
  "nextQuestionFrom now st prev =
     (case currentMCQ st of
        None \<Rightarrow> Inl TypeError
      | Some q \<Rightarrow>
          let isCorrect = (selectedAnswer st = Some (correctAnswer q));
              newScore = (if isCorrect then score st + 1 else score st)
          in if currentQuestionIndex st = int (length (questions st)) - 1
             then Inr (prev\<lparr>score := newScore, isFinished := True, selectedAnswer := None,
                            history := newResult now newScore st # history prev\<rparr>)
             else Inr (prev\<lparr>score := newScore,
                            currentQuestionIndex := currentQuestionIndex prev + 1,
                            selectedAnswer := None\<rparr>))"

definition handleSignIn :: "app \<Rightarrow> app" where
  "handleSignIn a = a\<lparr>state := (state a)\<lparr>isAuthenticated := True\<rparr>, currentView := Subjects\<rparr>"

definition resetQuiz :: "app \<Rightarrow> app" where
  "resetQuiz a =
     a\<lparr>state := INITIAL_STATE\<lparr>history := history (state a),
                                isAuthenticated := isAuthenticated (state a)\<rparr>,
       searchQuery := []\<rparr>"

subsection \<open>The rendered controls and their handlers\<close>

text \<open>
  What the user and the network can do to the component. \<open>ClickNext\<close> carries the
  clock reading its handler will take; \<open>GenerationSettles i oc\<close> is the \<open>i\<close>-th
  pending request settling with outcome \<open>oc\<close>.
\<close>

datatype event =
    ClickSignIn
  | ClickLogo
  | Navigate View
  | ChangeQuery js_string
  | SubmitQuery
  | ClickTag js_string
  | ClickStartPractice grade js_string
  | ClickOption nat
  | ClickNext js_string
  | ClickTryAnother
  | GenerationSettles nat outcome

definition tags :: "js_string list" where
  "tags = map js [''Photosynthesis'', ''Newton's Laws'', ''Periodic Table'', ''Integration'',
                  ''Cell Division'']"

definition subjects :: "js_string list" where
  "subjects = map js [''Physics'', ''Chemistry'', ''Biology'', ''Mathematics'']"

fun classSuffix :: "grade \<Rightarrow> js_string" where
  "classSuffix G11 = js '' Class 11''"
| "classSuffix G12 = js '' Class 12''"

text \<open>The three blocks of the home view, with the conditions the JSX renders them under.\<close>

definition homeView :: "app \<Rightarrow> bool" where
  "homeView a = (isAuthenticated (state a) \<and> currentView a = Home)"

definition searchForm :: "app \<Rightarrow> bool" where
  "searchForm a = (homeView a \<and> questions (state a) = [] \<and> \<not> isLoading (state a))"

definition quizPanel :: "app \<Rightarrow> bool" where
  "quizPanel a = (homeView a \<and> questions (state a) \<noteq> [] \<and> \<not> isFinished (state a))"

definition resultPanel :: "app \<Rightarrow> bool" where
  "resultPanel a = (homeView a \<and> isFinished (state a))"

text \<open>
  \<open>rendered e a\<close>: the render of \<open>a\<close> puts the control that raises \<open>e\<close> on the page
  (enabled), with a handler closing over \<open>a\<close>. The header and the footer are always there; the sign-in card replaces
  the views while \<open>isAuthenticated\<close> is false; an option button exists for each index of
  the current question's options and is disabled once an answer is selected; the Next
  button is inside \<^verbatim>\<open>state.selectedAnswer !== null && ...\<close>. A Next button that the
  latest render no longer produces but that is still exiting is not covered by
  \<open>rendered\<close>; pressing it is the third rule of \<open>reachable\<close>.
\<close>

fun rendered :: "event \<Rightarrow> app \<Rightarrow> bool" where
  "rendered ClickSignIn a = (\<not> isAuthenticated (state a))"
| "rendered ClickLogo a = True"
| "rendered (Navigate Home) a =
     (isAuthenticated (state a) \<and> (currentView a = Privacy \<or> currentView a = Terms))"
| "rendered (Navigate v) a = True"
| "rendered (ChangeQuery q) a = searchForm a"
| "rendered SubmitQuery a = searchForm a"
| "rendered (ClickTag t) a = (searchForm a \<and> t \<in> set tags)"
| "rendered (ClickStartPractice g subject) a =
     (isAuthenticated (state a) \<and> currentView a = Subjects \<and> subject \<in> set subjects)"
| "rendered (ClickOption idx) a =
     (quizPanel a \<and> selectedAnswer (state a) = None \<and>
      (case currentMCQ (state a) of None \<Rightarrow> False | Some q \<Rightarrow> idx < length (options q)))"
| "rendered (ClickNext now) a = (quizPanel a \<and> selectedAnswer (state a) \<noteq> None)"
| "rendered ClickTryAnother a = resultPanel a"
| "rendered (GenerationSettles i oc) a = (i < length (inflight a))"

text \<open>
  The handler of each control. A tag and a subject card call \<^verbatim>\<open>setSearchQuery\<close> and
  then \<^verbatim>\<open>generateMCQs\<close>, which still reads the \<open>searchQuery\<close> of the current render.
\<close>

fun handler :: "event \<Rightarrow> app \<Rightarrow> error + app" where
  "handler ClickSignIn a = Inr (handleSignIn a)"
| "handler ClickLogo a = Inr ((resetQuiz a)\<lparr>currentView := Subjects\<rparr>)"
| "handler (Navigate v) a = Inr (a\<lparr>currentView := v\<rparr>)"
| "handler (ChangeQuery q) a = Inr (a\<lparr>searchQuery := q\<rparr>)"
| "handler SubmitQuery a = Inr (generateMCQs None a)"
| "handler (ClickTag t) a = Inr ((generateMCQs None a)\<lparr>searchQuery := t\<rparr>)"
| "handler (ClickStartPractice g subject) a =
     Inr ((generateMCQs (Some g) a)\<lparr>searchQuery := subject @ classSuffix g,
                                      currentView := Home\<rparr>)"
| "handler (ClickOption idx) a = Inr (a\<lparr>state := handleAnswerSelect (int idx) (state a)\<rparr>)"
| "handler (ClickNext now) a =
     (case nextQuestion now (state a) of
        Inl e \<Rightarrow> Inl e
      | Inr s \<Rightarrow> Inr (a\<lparr>state := s\<rparr>))"
| "handler ClickTryAnother a = Inr (resetQuiz a)"
| "handler (GenerationSettles i oc) a = Inr (settle i oc a)"

text \<open>
  An event on a control of the latest render runs its handler; \<open>dispatch\<close> leaves the
  component as it is where the latest render has no such control. \<open>run\<close> plays a list
  of such events.
\<close>

definition dispatch :: "event \<Rightarrow> app \<Rightarrow> error + app" where
  "dispatch e a = (if rendered e a then handler e a else Inr a)"

fun run :: "event list \<Rightarrow> app \<Rightarrow> error + app" where
  "run [] a = Inr a"
| "run (e # es) a = (case dispatch e a of Inl err \<Rightarrow> Inl err | Inr a' \<Rightarrow> run es a')"

text \<open>
  States the page can be brought into: from the initial render, by controls of the latest
  render, and by pressing Next a second time while the pressed button is still exiting
  (the quiz panel stays when the first press did not finish the quiz). The second press
  runs the first press's closure against the state the first press left.
\<close>

inductive reachable :: "app \<Rightarrow> bool" where
  reachable_init: "reachable initial_app"
| reachable_step: "reachable a \<Longrightarrow> rendered e a \<Longrightarrow> handler e a = Inr a' \<Longrightarrow> reachable a'"
| reachable_exiting:
    "reachable a \<Longrightarrow> rendered (ClickNext now) a \<Longrightarrow> nextQuestion now (state a) = Inr s1 \<Longrightarrow>
     \<not> isFinished s1 \<Longrightarrow> nextQuestionFrom now' (state a) s1 = Inr s2 \<Longrightarrow>
     reachable (a\<lparr>state := s2\<rparr>)"

subsection \<open>Answering a whole quiz\<close>

text \<open>
  One question after the other: \<^verbatim>\<open>handleAnswerSelect(index)\<close>, then
  \<^verbatim>\<open>nextQuestion()\<close> at clock reading \<open>now\<close>.
\<close>

fun answerAll :: "(int \<times> js_string) list \<Rightarrow> QuizState \<Rightarrow> error + QuizState" where
  "answerAll [] s = Inr s"
| "answerAll ((index, now) # rest) s =
     (case nextQuestion now (handleAnswerSelect index s) of
        Inl e \<Rightarrow> Inl e
      | Inr s' \<Rightarrow> answerAll rest s')"

subsection \<open>The session operations as functions\<close>





subsection \<open>Sample data\<close>

definition sampleMCQ :: "int \<Rightarrow> MCQ" where
  "sampleMCQ c =
     \<lparr>question = js ''Q'', options = map js [''A'', ''B'', ''C'', ''D''], correctAnswer = c,
      explanation = js ''E''\<rparr>"

definition sampleQuiz :: "MCQ list \<Rightarrow> int option \<Rightarrow> app" where
  "sampleQuiz qs sel =
     \<lparr>state = INITIAL_STATE\<lparr>topic := js ''Optics'', grade := Some G11, questions := qs,
                              selectedAnswer := sel, isAuthenticated := True\<rparr>,
      searchQuery = js ''Optics'', currentView = Home, inflight = [], alerts = []\<rparr>"

subsection \<open>A selected answer has its question\<close>

definition selectedInRange :: "QuizState \<Rightarrow> bool" where
  "selectedInRange s =
     (selectedAnswer s \<noteq> None \<longrightarrow>
        0 \<le> currentQuestionIndex s \<and> currentQuestionIndex s < int (length (questions s)))"

subsection \<open>Sample sessions\<close>

text \<open>
  Signing in, picking a subject card (which only fills in the query, since
  \<^verbatim>\<open>generateMCQs\<close> still sees the empty one) and pressing Generate.
\<close>

definition startPhysics :: "event list" where
  "startPhysics = [ClickSignIn, ClickStartPractice G11 (js ''Physics''), SubmitQuery]"

text \<open>A quiz of two questions arrives and the first is answered.\<close>

definition answerFirst :: "event list" where
  "answerFirst =
     startPhysics @ [GenerationSettles 0 (TextParses [sampleMCQ 1, sampleMCQ 0]), ClickOption 1]"

text \<open>While the first request is pending: to the subjects view, and a card there.\<close>

definition secondRequest :: "event list" where
  "secondRequest = startPhysics @ [Navigate Subjects, ClickStartPractice G12 (js ''Chemistry'')]"

text \<open>The states these sessions end in (see \<open>run_startPhysics\<close> and the lemmas after it).\<close>

definition loadingApp :: app where
  "loadingApp =
     \<lparr>state = INITIAL_STATE\<lparr>topic := js ''Physics Class 11'', grade := Some G11,
                              isLoading := True, isAuthenticated := True\<rparr>,
      searchQuery = js ''Physics Class 11'', currentView = Home,
      inflight = [(js ''Physics Class 11'', G11)], alerts = []\<rparr>"

definition answeredApp :: app where
  "answeredApp =
     \<lparr>state = INITIAL_STATE\<lparr>topic := js ''Physics Class 11'', grade := Some G11,
                              questions := [sampleMCQ 1, sampleMCQ 0],
                              selectedAnswer := Some 1, isAuthenticated := True\<rparr>,
      searchQuery = js ''Physics Class 11'', currentView = Home, inflight = [], alerts = []\<rparr>"

text \<open>\<open>answeredApp\<close> after Next has been pressed twice in a row.\<close>

definition overrunApp :: app where
  "overrunApp =
     answeredApp\<lparr>state := (state answeredApp)\<lparr>score := 1, currentQuestionIndex := 2,
                                                selectedAnswer := None\<rparr>\<rparr>"

definition racingApp :: app where
  "racingApp =
     \<lparr>state = INITIAL_STATE\<lparr>topic := js ''Physics Class 11'', grade := Some G12,
                              isLoading := True, isAuthenticated := True\<rparr>,
      searchQuery = js ''Chemistry Class 12'', currentView = Home,
      inflight = [(js ''Physics Class 11'', G11), (js ''Physics Class 11'', G12)],
      alerts = []\<rparr>"





section \<open>Reachable states\<close>

lemma reachable_run:
  "reachable a \<Longrightarrow> run es a = Inr a' \<Longrightarrow> reachable a'"
proof (induction es arbitrary: a)
  case Nil
  then show ?case by simp
next
  case (Cons e es)
  from Cons.prems(2) obtain b where b: "dispatch e a = Inr b" and r: "run es b = Inr a'"
    by (auto split: sum.splits)
  have "reachable b"
  proof (cases "rendered e a")
    case True
    with b have "handler e a = Inr b" by (simp add: dispatch_def)
    with Cons.prems(1) True show ?thesis by (rule reachable_step)
  next
    case False
    with b Cons.prems(1) show ?thesis by (simp add: dispatch_def)
  qed
  then show ?case using r by (rule Cons.IH)
qed

lemma nextQuestion_clears: "nextQuestion now s = Inr s' \<Longrightarrow> selectedAnswer s' = None"
  by (auto simp: nextQuestion_def Let_def split: option.splits if_splits)

lemma nextQuestionFrom_clears:
  "nextQuestionFrom now st prev = Inr s' \<Longrightarrow> selectedAnswer s' = None"
  by (auto simp: nextQuestionFrom_def Let_def split: option.splits if_splits)

lemma nextQuestionFrom_same: "nextQuestionFrom now s s = nextQuestion now s"
  by (simp add: nextQuestionFrom_def nextQuestion_def)

lemma selectedInRange_generateMCQs:
  "selectedInRange (state a) \<Longrightarrow> selectedInRange (state (generateMCQs g a))"
  by (simp add: selectedInRange_def generateMCQs_def Let_def)

lemma selectedInRange_resetQuiz: "selectedInRange (state (resetQuiz a))"
  by (simp add: selectedInRange_def resetQuiz_def INITIAL_STATE_def)

lemma selectedInRange_settle:
  "selectedInRange (state a) \<Longrightarrow> selectedInRange (state (settle i oc a))"
  by (cases oc)
    (simp_all add: selectedInRange_def settle_def generationSucceeded_def generationFailed_def)

lemma selectedInRange_handler:
  assumes "selectedInRange (state a)" and "rendered e a" and "handler e a = Inr a'"
  shows "selectedInRange (state a')"
proof (cases e)
  case ClickSignIn
  with assms show ?thesis by (auto simp: handleSignIn_def selectedInRange_def)
next
  case ClickLogo
  with assms show ?thesis using selectedInRange_resetQuiz [of a] by auto
next
  case (Navigate v)
  with assms show ?thesis by auto
next
  case (ChangeQuery q)
  with assms show ?thesis by auto
next
  case SubmitQuery
  with assms show ?thesis using selectedInRange_generateMCQs [of a None] by auto
next
  case (ClickTag t)
  with assms show ?thesis using selectedInRange_generateMCQs [of a None] by auto
next
  case (ClickStartPractice g subject)
  with assms show ?thesis using selectedInRange_generateMCQs [of a "Some g"] by auto
next
  case (ClickOption idx)
  with assms(2) obtain q where "currentMCQ (state a) = Some q"
    by (auto split: option.splits)
  then have "0 \<le> currentQuestionIndex (state a)
      \<and> currentQuestionIndex (state a) < int (length (questions (state a)))"
    by (auto simp: currentMCQ_def js_index_def split: if_splits)
  with ClickOption assms(3) show ?thesis
    by (auto simp: selectedInRange_def handleAnswerSelect_def)
next
  case (ClickNext now)
  with assms(3) obtain s' where "nextQuestion now (state a) = Inr s'" and "a' = a\<lparr>state := s'\<rparr>"
    by (auto split: sum.splits)
  with nextQuestion_clears [of now "state a" s'] show ?thesis
    by (simp add: selectedInRange_def)
next
  case ClickTryAnother
  with assms show ?thesis using selectedInRange_resetQuiz [of a] by auto
next
  case (GenerationSettles i oc)
  with assms show ?thesis using selectedInRange_settle [of a i oc] by auto
qed

lemma reachable_selectedInRange: "reachable a \<Longrightarrow> selectedInRange (state a)"
proof (induction rule: reachable.induct)
  case reachable_init
  show ?case by (simp add: selectedInRange_def initial_app_def INITIAL_STATE_def)
next
  case (reachable_step a e a')
  then show ?case by (auto intro: selectedInRange_handler)
next
  case (reachable_exiting a now s1 now' s2)
  from nextQuestionFrom_clears [OF reachable_exiting.hyps(5)] show ?case
    by (simp add: selectedInRange_def)
qed

section \<open>Advancing\<close>

text \<open>
  C1. In a state whose \<open>selectedAnswer\<close> is set (and whose current question
  \<open>questions[currentQuestionIndex]\<close> exists), \<open>nextQuestion\<close> returns normally; the
  score goes up by exactly 1 if and only if the selected option is the question's
  \<open>correctAnswer\<close>, and is unchanged otherwise. On the last index it prepends one result
  with the session's topic, grade, the new score, the number of questions and the clock
  reading to \<open>history\<close>, sets \<open>isFinished\<close> and clears \<open>selectedAnswer\<close>; otherwise it
  adds 1 to \<open>currentQuestionIndex\<close> and clears \<open>selectedAnswer\<close>. Nothing else changes.
\<close>

theorem nextQuestion_effect:
  assumes "selectedAnswer s = Some k"
    and "0 \<le> currentQuestionIndex s"
    and "currentQuestionIndex s < int (length (questions s))"
  shows "nextQuestion now s =
     (let q = questions s ! nat (currentQuestionIndex s);
          newScore = (if k = correctAnswer q then score s + 1 else score s)
      in if currentQuestionIndex s = int (length (questions s)) - 1
         then Inr (s\<lparr>score := newScore, isFinished := True, selectedAnswer := None,
                     history := \<lparr>QuizResult.topic = topic s, QuizResult.grade = grade s,
                                 QuizResult.score = newScore,
                                 totalQuestions = int (length (questions s)),
                                 date = now\<rparr> # history s\<rparr>)
         else Inr (s\<lparr>score := newScore,
                     currentQuestionIndex := currentQuestionIndex s + 1,
                     selectedAnswer := None\<rparr>))"
  using assms by (simp add: nextQuestion_def currentMCQ_def js_index_def newResult_def Let_def)

theorem nextQuestion_effect_witness:
  "selectedAnswer (state (sampleQuiz [sampleMCQ 2] (Some 2))) = Some 2
   \<and> nextQuestion (js ''noon'') (state (sampleQuiz [sampleMCQ 2] (Some 2))) =
       Inr ((state (sampleQuiz [sampleMCQ 2] (Some 2)))
              \<lparr>score := 1, isFinished := True, selectedAnswer := None,
               history := [\<lparr>QuizResult.topic = js ''Optics'', QuizResult.grade = Some G11,
                            QuizResult.score = 1, totalQuestions = 1,
                            date = js ''noon''\<rparr>]\<rparr>)"
  using nextQuestion_effect [of "state (sampleQuiz [sampleMCQ 2] (Some 2))" 2 "js ''noon''"]
  by (simp add: sampleQuiz_def sampleMCQ_def INITIAL_STATE_def)

text \<open>
  In every reachable state of the page, a selected answer implies that the current
  question exists, so the theorem above applies to every such state.
\<close>

lemma reachable_selected_in_range:
  assumes "reachable a" and "selectedAnswer (state a) \<noteq> None"
  shows "0 \<le> currentQuestionIndex (state a)
       \<and> currentQuestionIndex (state a) < int (length (questions (state a)))"
  using reachable_selectedInRange [OF assms(1)] assms(2) by (simp add: selectedInRange_def)

text \<open>
  The handler has no test of \<open>selectedAnswer\<close> of its own: called with none selected it
  awards nothing, and still moves on (or finishes and records a result).
\<close>

lemma nextQuestion_unselected:
  assumes "selectedAnswer s = None"
    and "0 \<le> currentQuestionIndex s"
    and "currentQuestionIndex s < int (length (questions s))"
  shows "nextQuestion now s =
     (if currentQuestionIndex s = int (length (questions s)) - 1
      then Inr (s\<lparr>score := score s, isFinished := True, selectedAnswer := None,
                  history := newResult now (score s) s # history s\<rparr>)
      else Inr (s\<lparr>score := score s, currentQuestionIndex := currentQuestionIndex s + 1,
                  selectedAnswer := None\<rparr>))"
  using assms by (simp add: nextQuestion_def currentMCQ_def js_index_def Let_def)


section \<open>Selecting an answer\<close>

text \<open>
  C7. With no answer selected, \<open>handleAnswerSelect idx\<close> sets \<open>selectedAnswer\<close> to
  \<open>idx\<close> and changes nothing else; any further calls, with whatever indices, before the
  next advance leave the state as the first call made it. (The option buttons are
  disabled from then on as well.)
\<close>

theorem select_first_wins:
  assumes "selectedAnswer s = None"
  shows "selectedAnswer (handleAnswerSelect idx s) = Some idx
       \<and> handleAnswerSelect idx s = s\<lparr>selectedAnswer := Some idx\<rparr>
       \<and> foldl (\<lambda>t j. handleAnswerSelect j t) (handleAnswerSelect idx s) others
           = handleAnswerSelect idx s
       \<and> \<not> rendered (ClickOption j) (a\<lparr>state := handleAnswerSelect idx s\<rparr>)"
proof -
  have keep: "foldl (\<lambda>t j. handleAnswerSelect j t) t others = t"
    if "selectedAnswer t \<noteq> None" for t
    using that by (induction others arbitrary: t) (simp_all add: handleAnswerSelect_def)
  from assms have "selectedAnswer (handleAnswerSelect idx s) = Some idx"
    by (simp add: handleAnswerSelect_def)
  with keep [of "handleAnswerSelect idx s"] assms show ?thesis
    by (simp add: handleAnswerSelect_def)
qed

theorem select_first_wins_witness:
  "selectedAnswer (state (sampleQuiz [sampleMCQ 0] None)) = None
   \<and> selectedAnswer (handleAnswerSelect 3 (state (sampleQuiz [sampleMCQ 0] None))) = Some 3
   \<and> selectedAnswer (foldl (\<lambda>t j. handleAnswerSelect j t)
        (handleAnswerSelect 3 (state (sampleQuiz [sampleMCQ 0] None))) [0, 1]) = Some 3"
  using select_first_wins [of "state (sampleQuiz [sampleMCQ 0] None)" 3 "[0, 1]"]
  by (simp add: sampleQuiz_def INITIAL_STATE_def handleAnswerSelect_def)

section \<open>The history ledger\<close>

lemma nextQuestion_in_range:
  assumes "0 \<le> currentQuestionIndex s"
    and "currentQuestionIndex s < int (length (questions s))"
  shows "\<exists>s'. nextQuestion now s = Inr s' \<and> questions s' = questions s
          \<and> (if currentQuestionIndex s = int (length (questions s)) - 1
              then isFinished s' \<and> length (history s') = Suc (length (history s))
              else currentQuestionIndex s' = currentQuestionIndex s + 1
                   \<and> history s' = history s)"
  using assms by (simp add: nextQuestion_def currentMCQ_def js_index_def Let_def)

lemma answerAll_completes:
  assumes "0 \<le> currentQuestionIndex s"
    and "currentQuestionIndex s < int (length (questions s))"
    and "int (length answers) = int (length (questions s)) - currentQuestionIndex s"
  shows "\<exists>s'. answerAll answers s = Inr s' \<and> isFinished s'
          \<and> length (history s') = Suc (length (history s))"
  using assms
proof (induction answers arbitrary: s)
  case Nil
  then show ?case by simp
next
  case (Cons x rest)
  obtain index now where x: "x = (index, now)" by (cases x)
  let ?t = "handleAnswerSelect index s"
  have t: "questions ?t = questions s" "currentQuestionIndex ?t = currentQuestionIndex s"
    "history ?t = history s"
    by (simp_all add: handleAnswerSelect_def)
  from Cons.prems(1,2) t have rng: "0 \<le> currentQuestionIndex ?t"
    "currentQuestionIndex ?t < int (length (questions ?t))" by simp_all
  from nextQuestion_in_range [OF rng, of now] obtain s1 where
    s1: "nextQuestion now ?t = Inr s1" and q1: "questions s1 = questions s"
    and eff: "if currentQuestionIndex s = int (length (questions s)) - 1
              then isFinished s1 \<and> length (history s1) = Suc (length (history s))
              else currentQuestionIndex s1 = currentQuestionIndex s + 1
                   \<and> history s1 = history s"
    using t by auto
  show ?case
  proof (cases "currentQuestionIndex s = int (length (questions s)) - 1")
    case True
    with Cons.prems(3) have "rest = []" by simp
    with True eff s1 x show ?thesis by simp
  next
    case False
    with eff have i1: "currentQuestionIndex s1 = currentQuestionIndex s + 1"
      and h1: "history s1 = history s" by simp_all
    from False Cons.prems i1 q1 have
      "0 \<le> currentQuestionIndex s1" "currentQuestionIndex s1 < int (length (questions s1))"
      "int (length rest) = int (length (questions s1)) - currentQuestionIndex s1"
      by simp_all
    from Cons.IH [OF this] h1 s1 x show ?thesis by simp
  qed
qed

lemma generateMCQs_history: "history (state (generateMCQs g b)) = history (state b)"
  by (simp add: generateMCQs_def Let_def)

lemma resetQuiz_history: "history (state (resetQuiz b)) = history (state b)"
  by (simp add: resetQuiz_def)

lemma handleAnswerSelect_history: "history (handleAnswerSelect k s) = history s"
  by (simp add: handleAnswerSelect_def)

lemma handler_history:
  assumes "handler e b = Inr b'" and "history (state b') \<noteq> history (state b)"
  shows "\<exists>now. e = ClickNext now
           \<and> currentQuestionIndex (state b) = int (length (questions (state b))) - 1
           \<and> history (state b') = newResult now (score (state b')) (state b) # history (state b)"
proof (cases e)
  case (ClickNext now)
  with assms show ?thesis
    by (auto simp: nextQuestion_def Let_def split: sum.splits option.splits if_splits)
next
  case (GenerationSettles i oc)
  with assms show ?thesis
    by (cases oc) (auto simp: settle_def generationSucceeded_def generationFailed_def)
qed (use assms in \<open>auto simp: handleSignIn_def resetQuiz_history generateMCQs_history
      handleAnswerSelect_history\<close>)

text \<open>
  C2. From any state of the component, once a generation has delivered \<open>N \<ge> 1\<close>
  questions, answering and advancing through all \<open>N\<close> of them returns normally, ends
  with \<open>isFinished\<close> set and makes \<open>history\<close> exactly one entry longer. And whenever any
  handler at all changes \<open>history\<close>, that handler is \<open>nextQuestion\<close> running on the
  last index, and the change is one new result at the front.
\<close>

theorem ledger_grows_once_per_quiz:
  assumes "qs \<noteq> []" and "length answers = length qs"
  shows "(\<exists>s'. answerAll answers (state (generationSucceeded qs a)) = Inr s' \<and> isFinished s'
            \<and> length (history s') = length (history (state a)) + 1)
       \<and> (\<forall>e b b'. handler e b = Inr b' \<and> history (state b') \<noteq> history (state b) \<longrightarrow>
            (\<exists>now. e = ClickNext now
               \<and> currentQuestionIndex (state b) = int (length (questions (state b))) - 1
               \<and> history (state b') =
                   newResult now (score (state b')) (state b) # history (state b)))"
proof -
  let ?s = "state (generationSucceeded qs a)"
  from assms have "0 \<le> currentQuestionIndex ?s"
    "currentQuestionIndex ?s < int (length (questions ?s))"
    "int (length answers) = int (length (questions ?s)) - currentQuestionIndex ?s"
    by (simp_all add: generationSucceeded_def)
  from answerAll_completes [OF this] have
    "\<exists>s'. answerAll answers ?s = Inr s' \<and> isFinished s'
        \<and> length (history s') = length (history (state a)) + 1"
    by (simp add: generationSucceeded_def)
  with handler_history show ?thesis by blast
qed

text \<open>
  The witness is a quiz of three questions with correct answers 0, 1, 2 answered
  0, 2, 2: the first and the third answer are right, so \<open>nextQuestion\<close> leaves the
  score at 2 and the one new result reads 2 out of 3.
\<close>

theorem ledger_grows_once_per_quiz_witness:
  "[sampleMCQ 0, sampleMCQ 1, sampleMCQ 2] \<noteq> []
   \<and> answerAll [(0, js ''t1''), (2, js ''t2''), (2, js ''t3'')]
        (state (generationSucceeded [sampleMCQ 0, sampleMCQ 1, sampleMCQ 2] (sampleQuiz [] None))) =
      Inr ((state (sampleQuiz [sampleMCQ 0, sampleMCQ 1, sampleMCQ 2] None))
             \<lparr>currentQuestionIndex := 2, score := 2, isFinished := True,
              history := [\<lparr>QuizResult.topic = js ''Optics'', QuizResult.grade = Some G11,
                           QuizResult.score = 2, totalQuestions = 3, date = js ''t3''\<rparr>]\<rparr>)
   \<and> handler (ClickNext (js ''t'')) (sampleQuiz [sampleMCQ 0] (Some 0)) =
      Inr ((sampleQuiz [sampleMCQ 0] None)
             \<lparr>state := (state (sampleQuiz [sampleMCQ 0] None))
                \<lparr>score := 1, isFinished := True,
                 history := [newResult (js ''t'') 1 (state (sampleQuiz [sampleMCQ 0] (Some 0)))]\<rparr>\<rparr>)"
  using ledger_grows_once_per_quiz [of "[sampleMCQ 0, sampleMCQ 1, sampleMCQ 2]"
      "[(0, js ''t1''), (2, js ''t2''), (2, js ''t3'')]" "sampleQuiz [] None"]
  by (simp add: generationSucceeded_def sampleQuiz_def sampleMCQ_def INITIAL_STATE_def
      nextQuestion_def handleAnswerSelect_def currentMCQ_def js_index_def newResult_def Let_def)

text \<open>
  The same quiz read as the scenario "correct answers 0, 1, 2; the user selects 0, 2, 2":
  only the second answer is wrong, and the code ends with a score of 2, not 1.
\<close>

lemma scenario_three_questions:
  "\<exists>s'. answerAll [(0, js ''t1''), (2, js ''t2''), (2, js ''t3'')]
          (state (generationSucceeded [sampleMCQ 0, sampleMCQ 1, sampleMCQ 2] (sampleQuiz [] None))) =
        Inr s'
      \<and> score s' = 2
      \<and> map QuizResult.score (history s') = [2]
      \<and> map totalQuestions (history s') = [3]"
  by (simp add: generationSucceeded_def sampleQuiz_def sampleMCQ_def INITIAL_STATE_def
      nextQuestion_def handleAnswerSelect_def currentMCQ_def js_index_def newResult_def Let_def)

section \<open>Starting and completing a generation\<close>

text \<open>
  C8. When the query is empty or consists of white space only, \<open>generateMCQs\<close> returns
  at its first line: the component is exactly as before, with no request issued,
  \<open>isLoading\<close> not set and no alert shown.
\<close>

theorem blank_topic_ignored:
  assumes "trim (searchQuery a) = []"
  shows "generateMCQs selectedGrade a = a \<and> handler SubmitQuery a = Inr a"
  using assms by (simp add: generateMCQs_def)

theorem blank_topic_ignored_witness:
  "trim (searchQuery ((sampleQuiz [] None)\<lparr>searchQuery := [0x20, 0x9, 0x3000]\<rparr>)) = []
   \<and> generateMCQs (Some G12) ((sampleQuiz [] None)\<lparr>searchQuery := [0x20, 0x9, 0x3000]\<rparr>) =
       (sampleQuiz [] None)\<lparr>searchQuery := [0x20, 0x9, 0x3000]\<rparr>"
proof -
  have blank: "trim (searchQuery ((sampleQuiz [] None)\<lparr>searchQuery := [0x20, 0x9, 0x3000]\<rparr>)) = []"
    by (simp add: trim_def isWhiteSpace_def)
  from blank_topic_ignored [OF blank, of "Some G12"] blank show ?thesis by simp
qed

text \<open>
  C5. When a request settles by throwing or with text that does not parse, the
  \<^verbatim>\<open>catch\<close> block runs: \<open>isLoading\<close> becomes false, one alert is shown, and every
  other field of the session (questions, index, score, \<open>isFinished\<close>, selected answer,
  history, and also topic, grade and \<open>isAuthenticated\<close>) is as it was before the
  request settled.
\<close>

theorem generation_failure_effect:
  assumes "oc = GenerateContentThrows \<or> oc = TextUnparseable"
  shows "state (settle i oc a) = (state a)\<lparr>isLoading := False\<rparr>
       \<and> \<not> isLoading (state (settle i oc a))
       \<and> alerts (settle i oc a) = failureMessage # alerts a
       \<and> questions (state (settle i oc a)) = questions (state a)
       \<and> currentQuestionIndex (state (settle i oc a)) = currentQuestionIndex (state a)
       \<and> score (state (settle i oc a)) = score (state a)
       \<and> isFinished (state (settle i oc a)) = isFinished (state a)
       \<and> selectedAnswer (state (settle i oc a)) = selectedAnswer (state a)
       \<and> history (state (settle i oc a)) = history (state a)"
  using assms by (auto simp: settle_def generationFailed_def)

theorem generation_failure_effect_witness:
  "state (settle 0 TextUnparseable
      ((sampleQuiz [sampleMCQ 1] (Some 1))
         \<lparr>state := (state (sampleQuiz [sampleMCQ 1] (Some 1)))\<lparr>isLoading := True\<rparr>,
          inflight := [(js ''Optics'', G11)]\<rparr>)) =
     state (sampleQuiz [sampleMCQ 1] (Some 1))
   \<and> alerts (settle 0 TextUnparseable
      ((sampleQuiz [sampleMCQ 1] (Some 1))
         \<lparr>state := (state (sampleQuiz [sampleMCQ 1] (Some 1)))\<lparr>isLoading := True\<rparr>,
          inflight := [(js ''Optics'', G11)]\<rparr>)) = [failureMessage]"
  using generation_failure_effect [of TextUnparseable 0
      "(sampleQuiz [sampleMCQ 1] (Some 1))
         \<lparr>state := (state (sampleQuiz [sampleMCQ 1] (Some 1)))\<lparr>isLoading := True\<rparr>,
          inflight := [(js ''Optics'', G11)]\<rparr>"]
  by (simp add: sampleQuiz_def INITIAL_STATE_def)

section \<open>Reset\<close>

text \<open>
  C10. \<open>resetQuiz\<close> puts every session field back to its initial value (empty topic, no
  grade, no questions, index 0, score 0, nothing selected, not finished, not loading)
  and keeps \<open>history\<close> (and \<open>isAuthenticated\<close>) as it was.
\<close>

theorem reset_effect:
  "state (resetQuiz a) =
     \<lparr>topic = [], grade = None, questions = [], currentQuestionIndex = 0, score = 0,
      isFinished = False, isLoading = False, selectedAnswer = None,
      isAuthenticated = isAuthenticated (state a), history = history (state a)\<rparr>
   \<and> history (state (resetQuiz a)) = history (state a)"
  by (simp add: resetQuiz_def INITIAL_STATE_def)

section \<open>Sample sessions, evaluated\<close>

lemmas run_defs = run.simps dispatch_def quizPanel_def homeView_def searchForm_def
  resultPanel_def handleSignIn_def generateMCQs_def resetQuiz_def settle_def
  generationSucceeded_def generationFailed_def handleAnswerSelect_def nextQuestion_def
  currentMCQ_def js_index_def newResult_def Let_def initial_app_def INITIAL_STATE_def
  trim_def isWhiteSpace_def js_def subjects_def tags_def sampleMCQ_def startPhysics_def

lemma run_startPhysics: "run startPhysics initial_app = Inr loadingApp"
  by (simp add: loadingApp_def run_defs)

lemma run_answerFirst: "run answerFirst initial_app = Inr answeredApp"
  by (simp add: answerFirst_def answeredApp_def run_defs)

lemma run_secondRequest: "run secondRequest initial_app = Inr racingApp"
  by (simp add: secondRequest_def racingApp_def run_defs)

section \<open>Pressing Next twice on the page\<close>

text \<open>
  With the first of two questions answered, a press on Next and a second press on the
  exiting button leave the index at 2, the number of questions, while the quiz panel is
  still shown: the render then reads \<^verbatim>\<open>currentMCQ.question\<close> of a question that does
  not exist.
\<close>

lemma double_press_overruns:
  "reachable overrunApp \<and> quizPanel overrunApp
   \<and> currentQuestionIndex (state overrunApp) = int (length (questions (state overrunApp)))
   \<and> currentMCQ (state overrunApp) = None"
proof -
  have r: "reachable answeredApp"
    using reachable_init run_answerFirst by (rule reachable_run)
  have shown: "rendered (ClickNext (js ''t1'')) answeredApp"
    by (simp add: answeredApp_def quizPanel_def homeView_def INITIAL_STATE_def)
  have first: "nextQuestion (js ''t1'') (state answeredApp) =
      Inr ((state answeredApp)\<lparr>score := 1, currentQuestionIndex := 1, selectedAnswer := None\<rparr>)"
    by (simp add: answeredApp_def INITIAL_STATE_def sampleMCQ_def nextQuestion_def currentMCQ_def
        js_index_def Let_def)
  have panel: "\<not> isFinished ((state answeredApp)\<lparr>score := 1, currentQuestionIndex := 1,
      selectedAnswer := None\<rparr>)"
    by (simp add: answeredApp_def INITIAL_STATE_def)
  have second: "nextQuestionFrom (js ''t2'') (state answeredApp)
      ((state answeredApp)\<lparr>score := 1, currentQuestionIndex := 1, selectedAnswer := None\<rparr>) =
      Inr (state overrunApp)"
    by (simp add: overrunApp_def answeredApp_def INITIAL_STATE_def sampleMCQ_def
        nextQuestionFrom_def currentMCQ_def js_index_def Let_def)
  have "reachable (answeredApp\<lparr>state := state overrunApp\<rparr>)"
    using r shown first panel second by (rule reachable_exiting)
  moreover have "answeredApp\<lparr>state := state overrunApp\<rparr> = overrunApp"
    by (simp add: overrunApp_def)
  ultimately have "reachable overrunApp" by simp
  then show ?thesis
    by (simp add: overrunApp_def answeredApp_def INITIAL_STATE_def quizPanel_def homeView_def
        currentMCQ_def js_index_def)
qed

section \<open>The score bound\<close>








section \<open>A generation that returns no questions\<close>


section \<open>A second request while one is pending\<close>

text \<open>
  C4. \<open>generateMCQs\<close> does not look at \<open>isLoading\<close>, and the subject cards stay on the
  page while a request is pending (only the search form is hidden then). After signing
  in, filling the query from a card and pressing Generate, one request is in flight and
  \<open>isLoading\<close> is set; going to the subjects view and pressing a card issues a second
  request and rewrites the session's grade, so two requests are in flight in a reachable
  state.
\<close>

theorem second_request_while_loading:
  "run startPhysics initial_app = Inr loadingApp
   \<and> isLoading (state loadingApp)
   \<and> inflight loadingApp = [(js ''Physics Class 11'', G11)]
   \<and> generateMCQs (Some G12) loadingApp \<noteq> loadingApp
   \<and> run secondRequest initial_app = Inr racingApp
   \<and> reachable racingApp
   \<and> inflight racingApp = [(js ''Physics Class 11'', G11), (js ''Physics Class 11'', G12)]
   \<and> grade (state racingApp) = Some G12"
proof -
  have "reachable racingApp"
    using reachable_init run_secondRequest by (rule reachable_run)
  moreover have "generateMCQs (Some G12) loadingApp \<noteq> loadingApp"
    by (simp add: loadingApp_def generateMCQs_def trim_def isWhiteSpace_def js_def Let_def
        INITIAL_STATE_def)
  ultimately show ?thesis
    using run_startPhysics run_secondRequest
    by (simp add: loadingApp_def racingApp_def INITIAL_STATE_def)
qed

end
